theory Spec2Isabelle
  imports Main
begin

section \<open>Incremental star-schema loader (scripts/import_meta_csv.py)\<close>

text \<open>
  The loader reads advertising records and, for each one, resolves seven dimension keys
  with a look-up-or-insert against the warehouse, deletes the fact row of the record's
  grain and inserts the new one, all inside one transaction per record.

  The warehouse is the storage collaborator. It is modelled as eight tables (lists of
  rows in insertion order), the identity counters that generate surrogate keys, and a
  script of the failures the server will raise: the head of the script is the fate of the
  next statement (\<open>Some msg\<close>: the statement raises \<open>pyodbc.Error\<close> with that message and
  has no effect; \<open>None\<close> or an exhausted script: it runs). Any theorem that quantifies over
  the connection therefore quantifies over every pattern of storage failures.
\<close>

subsection \<open>Python values and exceptions\<close>

text \<open>
  \<open>PyodbcError\<close> is \<open>pyodbc.Error\<close> with the driver's message, the only exception the
  row handler of \<open>main\<close> catches. \<open>ValueError\<close> is what \<open>NaT.strftime\<close> and \<open>int\<close> raise.
\<close>

datatype py_error = PyodbcError string | ValueError

text \<open>
  A value of the \<open>FullDate\<close> column as \<open>read_csv(parse_dates=...)\<close> delivers it: a
  timestamp, or \<open>NaT\<close> for an empty cell. Of a timestamp the loader reads the calendar
  fields and \<open>weekday()\<close> (0 = Monday), which is taken as given by the value.
\<close>

record datetime =
  year :: nat
  month :: nat
  day :: nat
  weekday :: nat

datatype full_date = NaT | Timestamp datetime

subsection \<open>\<open>strftime("%Y%m%d")\<close> and \<open>int\<close>\<close>

definition digit_char :: "nat \<Rightarrow> char" where
  "digit_char n = char_of (48 + n)"

fun decimal :: "nat \<Rightarrow> string" where
  "decimal n = (if n < 10 then [digit_char n] else decimal (n div 10) @ [digit_char (n mod 10)])"

declare decimal.simps [simp del]

definition zero_pad :: "nat \<Rightarrow> string \<Rightarrow> string" where
  "zero_pad w s = replicate (w - length s) (CHR ''0'') @ s"

text \<open>
  \<open>%Y\<close> is the year zero-padded to four digits, \<open>%m\<close> and \<open>%d\<close> to two. (A C library
  that does not pad the year gives the same integer: leading zeros do not count.)
\<close>

definition strftime_Ymd :: "full_date \<Rightarrow> py_error + string" where
  "strftime_Ymd fd =
     (case fd of
        NaT \<Rightarrow> Inl ValueError
      | Timestamp d \<Rightarrow>
          Inr (zero_pad 4 (decimal (year d)) @ zero_pad 2 (decimal (month d))
               @ zero_pad 2 (decimal (day d))))"

definition is_digit :: "char \<Rightarrow> bool" where
  "is_digit ch = (48 \<le> (of_char ch :: nat) \<and> (of_char ch :: nat) \<le> 57)"

definition digit_val :: "char \<Rightarrow> nat" where
  "digit_val ch = of_char ch - 48"

definition digits_value :: "string \<Rightarrow> nat" where
  "digits_value s = foldl (\<lambda>acc ch. acc * 10 + digit_val ch) 0 s"

text \<open>\<open>int(s)\<close> on a string of decimal digits; anything else raises \<open>ValueError\<close>.\<close>

definition py_int :: "string \<Rightarrow> py_error + int" where
  "py_int s = (if s \<noteq> [] \<and> list_all is_digit s then Inr (int (digits_value s)) else Inl ValueError)"

subsection \<open>Rows of the eight tables\<close>

text \<open>
  Columns the loader binds to \<open>int\<close> parameters are \<open>int\<close>; columns bound to
  \<open>str | None\<close> parameters are \<open>string option\<close>, \<open>None\<close> being SQL \<open>NULL\<close>. The thirteen
  measures are copied and never inspected, so their type is a parameter.
\<close>

record client_row =
  cli_ClientID :: int
  cli_AccountFBID :: int
  cli_ClientName :: "string option"

record campaign_row =
  cmp_CampaignID :: int
  cmp_ClientID :: int
  cmp_CampaignFBID :: int
  cmp_CampaignName :: "string option"
  cmp_Objective :: "string option"

record adset_row =
  ads_AdSetID :: int
  ads_CampaignID :: int
  ads_AdSetFBID :: int
  ads_AdSetName :: "string option"

record ad_row =
  ad_AdID :: int
  ad_AdSetID :: int
  ad_AdFBID :: int
  ad_AdName :: "string option"
  ad_AdBody :: "string option"
  ad_AdThumbnailURL :: "string option"
  ad_PermanentLink :: "string option"

record date_row =
  dat_DateID :: int
  dat_FullDate :: "nat \<times> nat \<times> nat"
  dat_Year :: nat
  dat_Month :: nat
  dat_Day :: nat
  dat_DayOfWeek :: nat

record demographic_row =
  dem_DemographicID :: int
  dem_AgeBracket :: "string option"
  dem_Gender :: "string option"

record placement_row =
  plc_PlacementID :: int
  plc_Platform :: "string option"
  plc_Device :: "string option"
  plc_Position :: "string option"

record 'v measures =
  Spend :: 'v
  Impressions :: 'v
  Reach :: 'v
  Clicks :: 'v
  Purchases :: 'v
  PurchaseValue :: 'v
  VideoPlays_25_Pct :: 'v
  VideoPlays_50_Pct :: 'v
  VideoPlays_75_Pct :: 'v
  VideoPlays_95_Pct :: 'v
  VideoPlays_100_Pct :: 'v
  Results :: 'v
  CostPerResult :: 'v

record 'v fact_row =
  f_DateID :: int
  f_ClientID :: int
  f_CampaignID :: int
  f_AdSetID :: int
  f_AdID :: int
  f_DemographicID :: int
  f_PlacementID :: int
  f_measures :: "'v measures"

text \<open>One input record: the columns of the CSV row that \<open>process_row\<close> reads.\<close>

record 'v csv_row =
  FullDate :: full_date
  AccountFBID :: int
  ClientName :: "string option"
  CampaignFBID :: int
  CampaignName :: "string option"
  Objective :: "string option"
  AdSetFBID :: int
  AdSetName :: "string option"
  AdFBID :: int
  AdName :: "string option"
  AdBody :: "string option"
  AdThumbnailURL :: "string option"
  PermanentLink :: "string option"
  AgeBracket :: "string option"
  Gender :: "string option"
  Platform :: "string option"
  Device :: "string option"
  Position :: "string option"
  row_measures :: "'v measures"

subsection \<open>The store and the connection\<close>

record 'v tables =
  dim_Clients :: "client_row list"
  dim_Campaigns :: "campaign_row list"
  dim_AdSets :: "adset_row list"
  dim_Ads :: "ad_row list"
  dim_Date :: "date_row list"
  dim_Demographics :: "demographic_row list"
  dim_Placements :: "placement_row list"
  fact_Metrics :: "'v fact_row list"

text \<open>
  Identity counters: the next value \<open>OUTPUT INSERTED.<key>\<close> will report for each table
  with a generated key. They are not part of the transaction: a rollback does not give
  values back.
\<close>

record identities =
  next_ClientID :: int
  next_CampaignID :: int
  next_AdSetID :: int
  next_AdID :: int
  next_DemographicID :: int
  next_PlacementID :: int

text \<open>
  A connection opened with \<open>autocommit=False\<close>: the committed tables, the tables as the
  open transaction sees them, the identity counters, and the script of failures to come.
\<close>

record 'v conn =
  committed :: "'v tables"
  working :: "'v tables"
  idents :: identities
  script :: "string option list"

subsection \<open>Statements, exceptions and sequencing\<close>

text \<open>
  A computation on the connection returns the exception it raised (\<open>Inl\<close>) or its value
  (\<open>Inr\<close>), together with the connection as it left it: what a statement did before a
  later one raised stays done until somebody rolls back.
\<close>

type_synonym ('v, 'a) db = "'v conn \<Rightarrow> (py_error + 'a) \<times> 'v conn"

definition return :: "'a \<Rightarrow> ('v, 'a) db" where
  "return a = (\<lambda>cur. (Inr a, cur))"

definition raise :: "py_error \<Rightarrow> ('v, 'a) db" where
  "raise e = (\<lambda>cur. (Inl e, cur))"

definition and_then :: "('v, 'a) db \<Rightarrow> ('a \<Rightarrow> ('v, 'b) db) \<Rightarrow> ('v, 'b) db" where
  "and_then m f = (\<lambda>cur. case m cur of (Inl e, cur') \<Rightarrow> (Inl e, cur') | (Inr a, cur') \<Rightarrow> f a cur')"

text \<open>
  \<open>cur.execute(...)\<close> followed, where the source does so, by \<open>cur.fetchone()\<close>: the
  server consumes the head of the script; on a scripted failure the statement raises and
  changes nothing, otherwise it runs on the transaction's tables and the identity counters.
\<close>

definition next_fault :: "'v conn \<Rightarrow> string option" where
  "next_fault cur = (case script cur of [] \<Rightarrow> None | fate # _ \<Rightarrow> fate)"

definition execute ::
  "('v tables \<Rightarrow> identities \<Rightarrow> 'a \<times> 'v tables \<times> identities) \<Rightarrow> ('v, 'a) db" where
  "execute stmt cur =
     (case next_fault cur of
        Some msg \<Rightarrow> (Inl (PyodbcError msg), cur\<lparr>script := tl (script cur)\<rparr>)
      | None \<Rightarrow>
          (case stmt (working cur) (idents cur) of
             (a, t, i) \<Rightarrow> (Inr a, cur\<lparr>working := t, idents := i, script := tl (script cur)\<rparr>)))"

text \<open>
  SQL comparison of a nullable column with a nullable parameter: \<open>col = ?\<close> is true only
  when both sides are non-null and equal (with \<open>NULL\<close> on either side it is unknown, and a
  \<open>WHERE\<close> clause keeps only the rows for which it is true).
\<close>

definition sql_eq :: "'a option \<Rightarrow> 'a option \<Rightarrow> bool" where
  "sql_eq col param = (case (col, param) of (Some a, Some b) \<Rightarrow> a = b | _ \<Rightarrow> False)"

subsection \<open>The SQL statements of the loader\<close>

text \<open>
  A \<open>SELECT\<close> with its \<open>fetchone()\<close> yields the key of the first matching row, in insertion
  order, or \<open>None\<close>. An \<open>INSERT ... OUTPUT INSERTED.<key>\<close> appends the row under the next
  identity value and yields that value.
\<close>

definition select_ClientID :: "int \<Rightarrow> 'v tables \<Rightarrow> identities \<Rightarrow> int option \<times> 'v tables \<times> identities" where
  "select_ClientID account_fbid t i =
     (map_option cli_ClientID (find (\<lambda>r. cli_AccountFBID r = account_fbid) (dim_Clients t)), t, i)"

definition insert_Client ::
  "int \<Rightarrow> string option \<Rightarrow> 'v tables \<Rightarrow> identities \<Rightarrow> int \<times> 'v tables \<times> identities" where
  "insert_Client account_fbid name t i =
     (next_ClientID i,
      t\<lparr>dim_Clients := dim_Clients t @
          [\<lparr>cli_ClientID = next_ClientID i, cli_AccountFBID = account_fbid, cli_ClientName = name\<rparr>]\<rparr>,
      i\<lparr>next_ClientID := next_ClientID i + 1\<rparr>)"

definition select_CampaignID :: "int \<Rightarrow> 'v tables \<Rightarrow> identities \<Rightarrow> int option \<times> 'v tables \<times> identities" where
  "select_CampaignID campaign_fbid t i =
     (map_option cmp_CampaignID (find (\<lambda>r. cmp_CampaignFBID r = campaign_fbid) (dim_Campaigns t)), t, i)"

definition insert_Campaign ::
  "int \<Rightarrow> int \<Rightarrow> string option \<Rightarrow> string option \<Rightarrow> 'v tables \<Rightarrow> identities
     \<Rightarrow> int \<times> 'v tables \<times> identities" where
  "insert_Campaign client_id campaign_fbid name objective t i =
     (next_CampaignID i,
      t\<lparr>dim_Campaigns := dim_Campaigns t @
          [\<lparr>cmp_CampaignID = next_CampaignID i, cmp_ClientID = client_id,
            cmp_CampaignFBID = campaign_fbid, cmp_CampaignName = name, cmp_Objective = objective\<rparr>]\<rparr>,
      i\<lparr>next_CampaignID := next_CampaignID i + 1\<rparr>)"

definition select_AdSetID :: "int \<Rightarrow> 'v tables \<Rightarrow> identities \<Rightarrow> int option \<times> 'v tables \<times> identities" where
  "select_AdSetID adset_fbid t i =
     (map_option ads_AdSetID (find (\<lambda>r. ads_AdSetFBID r = adset_fbid) (dim_AdSets t)), t, i)"

definition insert_AdSet ::
  "int \<Rightarrow> int \<Rightarrow> string option \<Rightarrow> 'v tables \<Rightarrow> identities \<Rightarrow> int \<times> 'v tables \<times> identities" where
  "insert_AdSet campaign_id adset_fbid name t i =
     (next_AdSetID i,
      t\<lparr>dim_AdSets := dim_AdSets t @
          [\<lparr>ads_AdSetID = next_AdSetID i, ads_CampaignID = campaign_id,
            ads_AdSetFBID = adset_fbid, ads_AdSetName = name\<rparr>]\<rparr>,
      i\<lparr>next_AdSetID := next_AdSetID i + 1\<rparr>)"

definition select_AdID :: "int \<Rightarrow> 'v tables \<Rightarrow> identities \<Rightarrow> int option \<times> 'v tables \<times> identities" where
  "select_AdID ad_fbid t i =
     (map_option ad_AdID (find (\<lambda>r. ad_AdFBID r = ad_fbid) (dim_Ads t)), t, i)"

definition insert_Ad ::
  "int \<Rightarrow> int \<Rightarrow> string option \<Rightarrow> string option \<Rightarrow> string option \<Rightarrow> string option
     \<Rightarrow> 'v tables \<Rightarrow> identities \<Rightarrow> int \<times> 'v tables \<times> identities" where
  "insert_Ad adset_id ad_fbid name body thumbnail_url permanent_link t i =
     (next_AdID i,
      t\<lparr>dim_Ads := dim_Ads t @
          [\<lparr>ad_AdID = next_AdID i, ad_AdSetID = adset_id, ad_AdFBID = ad_fbid, ad_AdName = name,
            ad_AdBody = body, ad_AdThumbnailURL = thumbnail_url, ad_PermanentLink = permanent_link\<rparr>]\<rparr>,
      i\<lparr>next_AdID := next_AdID i + 1\<rparr>)"

definition select_DateID :: "int \<Rightarrow> 'v tables \<Rightarrow> identities \<Rightarrow> int option \<times> 'v tables \<times> identities" where
  "select_DateID date_id t i =
     (map_option dat_DateID (find (\<lambda>r. dat_DateID r = date_id) (dim_Date t)), t, i)"

definition insert_Date :: "int \<Rightarrow> datetime \<Rightarrow> 'v tables \<Rightarrow> identities \<Rightarrow> unit \<times> 'v tables \<times> identities" where
  "insert_Date date_id d t i =
     ((),
      t\<lparr>dim_Date := dim_Date t @
          [\<lparr>dat_DateID = date_id, dat_FullDate = (year d, month d, day d), dat_Year = year d,
            dat_Month = month d, dat_Day = day d, dat_DayOfWeek = weekday d + 1\<rparr>]\<rparr>,
      i)"

definition select_DemographicID ::
  "string option \<Rightarrow> string option \<Rightarrow> 'v tables \<Rightarrow> identities \<Rightarrow> int option \<times> 'v tables \<times> identities" where
  "select_DemographicID age_bracket gender t i =
     (map_option dem_DemographicID
        (find (\<lambda>r. sql_eq (dem_AgeBracket r) age_bracket \<and> sql_eq (dem_Gender r) gender)
           (dim_Demographics t)), t, i)"

definition insert_Demographic ::
  "string option \<Rightarrow> string option \<Rightarrow> 'v tables \<Rightarrow> identities \<Rightarrow> int \<times> 'v tables \<times> identities" where
  "insert_Demographic age_bracket gender t i =
     (next_DemographicID i,
      t\<lparr>dim_Demographics := dim_Demographics t @
          [\<lparr>dem_DemographicID = next_DemographicID i, dem_AgeBracket = age_bracket,
            dem_Gender = gender\<rparr>]\<rparr>,
      i\<lparr>next_DemographicID := next_DemographicID i + 1\<rparr>)"

definition select_PlacementID ::
  "string option \<Rightarrow> string option \<Rightarrow> string option \<Rightarrow> 'v tables \<Rightarrow> identities
     \<Rightarrow> int option \<times> 'v tables \<times> identities" where
  "select_PlacementID platform device position t i =
     (map_option plc_PlacementID
        (find (\<lambda>r. sql_eq (plc_Platform r) platform \<and> sql_eq (plc_Device r) device
                  \<and> sql_eq (plc_Position r) position)
           (dim_Placements t)), t, i)"

definition insert_Placement ::
  "string option \<Rightarrow> string option \<Rightarrow> string option \<Rightarrow> 'v tables \<Rightarrow> identities
     \<Rightarrow> int \<times> 'v tables \<times> identities" where
  "insert_Placement platform device position t i =
     (next_PlacementID i,
      t\<lparr>dim_Placements := dim_Placements t @
          [\<lparr>plc_PlacementID = next_PlacementID i, plc_Platform = platform, plc_Device = device,
            plc_Position = position\<rparr>]\<rparr>,
      i\<lparr>next_PlacementID := next_PlacementID i + 1\<rparr>)"

definition same_grain :: "int \<Rightarrow> int \<Rightarrow> int \<Rightarrow> int \<Rightarrow> 'v fact_row \<Rightarrow> bool" where
  "same_grain date_id ad_id demographic_id placement_id f =
     (f_DateID f = date_id \<and> f_AdID f = ad_id \<and> f_DemographicID f = demographic_id
      \<and> f_PlacementID f = placement_id)"

definition delete_Metrics ::
  "int \<Rightarrow> int \<Rightarrow> int \<Rightarrow> int \<Rightarrow> 'v tables \<Rightarrow> identities \<Rightarrow> unit \<times> 'v tables \<times> identities" where
  "delete_Metrics date_id ad_id demographic_id placement_id t i =
     ((),
      t\<lparr>fact_Metrics :=
          filter (\<lambda>f. \<not> same_grain date_id ad_id demographic_id placement_id f) (fact_Metrics t)\<rparr>,
      i)"

definition insert_Metrics :: "'v fact_row \<Rightarrow> 'v tables \<Rightarrow> identities \<Rightarrow> unit \<times> 'v tables \<times> identities" where
  "insert_Metrics f t i = ((), t\<lparr>fact_Metrics := fact_Metrics t @ [f]\<rparr>, i)"

subsection \<open>Look-up-or-insert of the dimensions\<close>

definition get_or_create_client :: "int \<Rightarrow> string option \<Rightarrow> ('v, int) db" where
  "get_or_create_client account_fbid name =
     and_then (execute (select_ClientID account_fbid)) (\<lambda>row.
       case row of
         Some client_id \<Rightarrow> return client_id
       | None \<Rightarrow> execute (insert_Client account_fbid name))"

definition get_or_create_campaign ::
  "int \<Rightarrow> int \<Rightarrow> string option \<Rightarrow> string option \<Rightarrow> ('v, int) db" where
  "get_or_create_campaign client_id campaign_fbid name objective =
     and_then (execute (select_CampaignID campaign_fbid)) (\<lambda>row.
       case row of
         Some campaign_id \<Rightarrow> return campaign_id
       | None \<Rightarrow> execute (insert_Campaign client_id campaign_fbid name objective))"

definition get_or_create_adset :: "int \<Rightarrow> int \<Rightarrow> string option \<Rightarrow> ('v, int) db" where
  "get_or_create_adset campaign_id adset_fbid name =
     and_then (execute (select_AdSetID adset_fbid)) (\<lambda>row.
       case row of
         Some adset_id \<Rightarrow> return adset_id
       | None \<Rightarrow> execute (insert_AdSet campaign_id adset_fbid name))"

definition get_or_create_ad ::
  "int \<Rightarrow> int \<Rightarrow> string option \<Rightarrow> string option \<Rightarrow> string option \<Rightarrow> string option
     \<Rightarrow> ('v, int) db" where
  "get_or_create_ad adset_id ad_fbid name body thumbnail_url permanent_link =
     and_then (execute (select_AdID ad_fbid)) (\<lambda>row.
       case row of
         Some ad_id \<Rightarrow> return ad_id
       | None \<Rightarrow> execute (insert_Ad adset_id ad_fbid name body thumbnail_url permanent_link))"

text \<open>
  The date key is computed before any statement is sent: \<open>strftime\<close> on \<open>NaT\<close> raises
  \<open>ValueError\<close> with the connection untouched.
\<close>

definition date_key :: "full_date \<Rightarrow> py_error + int" where
  "date_key fd = (case strftime_Ymd fd of Inl e \<Rightarrow> Inl e | Inr s \<Rightarrow> py_int s)"

definition get_or_create_date :: "full_date \<Rightarrow> ('v, int) db" where
  "get_or_create_date fd =
     (case date_key fd of
        Inl e \<Rightarrow> raise e
      | Inr date_id \<Rightarrow>
          and_then (execute (select_DateID date_id)) (\<lambda>row.
            case row of
              Some _ \<Rightarrow> return date_id
            | None \<Rightarrow>
                (case fd of
                   NaT \<Rightarrow> raise ValueError
                 | Timestamp d \<Rightarrow>
                     and_then (execute (insert_Date date_id d)) (\<lambda>_. return date_id))))"

definition get_or_create_demographic :: "string option \<Rightarrow> string option \<Rightarrow> ('v, int) db" where
  "get_or_create_demographic age_bracket gender =
     and_then (execute (select_DemographicID age_bracket gender)) (\<lambda>row.
       case row of
         Some demographic_id \<Rightarrow> return demographic_id
       | None \<Rightarrow> execute (insert_Demographic age_bracket gender))"

definition get_or_create_placement ::
  "string option \<Rightarrow> string option \<Rightarrow> string option \<Rightarrow> ('v, int) db" where
  "get_or_create_placement platform device position =
     and_then (execute (select_PlacementID platform device position)) (\<lambda>row.
       case row of
         Some placement_id \<Rightarrow> return placement_id
       | None \<Rightarrow> execute (insert_Placement platform device position))"

subsection \<open>Processing one record\<close>

definition process_row :: "'v csv_row \<Rightarrow> ('v, unit) db" where
  "process_row row =
     and_then (get_or_create_date (FullDate row)) (\<lambda>date_id.
     and_then (get_or_create_client (AccountFBID row) (ClientName row)) (\<lambda>client_id.
     and_then (get_or_create_campaign client_id (CampaignFBID row) (CampaignName row)
                 (Objective row)) (\<lambda>campaign_id.
     and_then (get_or_create_adset campaign_id (AdSetFBID row) (AdSetName row)) (\<lambda>adset_id.
     and_then (get_or_create_ad adset_id (AdFBID row) (AdName row) (AdBody row)
                 (AdThumbnailURL row) (PermanentLink row)) (\<lambda>ad_id.
     and_then (get_or_create_demographic (AgeBracket row) (Gender row)) (\<lambda>demographic_id.
     and_then (get_or_create_placement (Platform row) (Device row) (Position row))
       (\<lambda>placement_id.
     and_then (execute (delete_Metrics date_id ad_id demographic_id placement_id)) (\<lambda>_.
     execute (insert_Metrics
       \<lparr>f_DateID = date_id, f_ClientID = client_id, f_CampaignID = campaign_id,
        f_AdSetID = adset_id, f_AdID = ad_id, f_DemographicID = demographic_id,
        f_PlacementID = placement_id,
        f_measures =
          \<lparr>Spend = Spend (row_measures row),
           Impressions = Impressions (row_measures row),
           Reach = Reach (row_measures row),
           Clicks = Clicks (row_measures row),
           Purchases = Purchases (row_measures row),
           PurchaseValue = PurchaseValue (row_measures row),
           VideoPlays_25_Pct = VideoPlays_25_Pct (row_measures row),
           VideoPlays_50_Pct = VideoPlays_50_Pct (row_measures row),
           VideoPlays_75_Pct = VideoPlays_75_Pct (row_measures row),
           VideoPlays_95_Pct = VideoPlays_95_Pct (row_measures row),
           VideoPlays_100_Pct = VideoPlays_100_Pct (row_measures row),
           Results = Results (row_measures row),
           CostPerResult = CostPerResult (row_measures row)\<rparr>\<rparr>)))))))))"

subsection \<open>The import loop of \<open>main\<close>\<close>

text \<open>
  \<open>conn.commit()\<close> is a statement like the others (it can raise \<open>pyodbc.Error\<close>, inside
  the \<open>try\<close>); when it runs, the transaction's tables become the committed ones.
  \<open>conn.rollback()\<close> gives the transaction the committed tables back; it runs in the
  handler, outside any \<open>try\<close>, and is taken not to fail.
\<close>

definition commit :: "('v, unit) db" where
  "commit cur =
     (case next_fault cur of
        Some msg \<Rightarrow> (Inl (PyodbcError msg), cur\<lparr>script := tl (script cur)\<rparr>)
      | None \<Rightarrow> (Inr (), cur\<lparr>committed := working cur, script := tl (script cur)\<rparr>))"

definition rollback :: "'v conn \<Rightarrow> 'v conn" where
  "rollback cur = cur\<lparr>working := committed cur\<rparr>"

text \<open>What \<open>main\<close> prints.\<close>

datatype out_line =
    Connecting
  | Starting
  | Processing nat nat
  | ErrorRow nat string
  | Completed

text \<open>
  The \<open>for\<close> loop over the records, \<open>idx\<close> counting from 1. The handler catches
  \<open>pyodbc.Error\<close> only: any other exception leaves the loop and \<open>main\<close>, and is returned
  here as \<open>Some e\<close> with the lines printed so far.
\<close>

fun import_loop ::
  "nat \<Rightarrow> nat \<Rightarrow> 'v csv_row list \<Rightarrow> 'v conn \<Rightarrow> py_error option \<times> 'v conn \<times> out_line list" where
  "import_loop idx total_rows [] cur = (None, cur, [])"
| "import_loop idx total_rows (row # rows) cur =
     (case and_then (process_row row) (\<lambda>_. commit) cur of
        (Inr _, cur') \<Rightarrow>
          (case import_loop (idx + 1) total_rows rows cur' of
             (exc, cur'', out) \<Rightarrow> (exc, cur'', Processing idx total_rows # out))
      | (Inl (PyodbcError err), cur') \<Rightarrow>
          (case import_loop (idx + 1) total_rows rows (rollback cur') of
             (exc, cur'', out) \<Rightarrow> (exc, cur'', Processing idx total_rows # ErrorRow idx err # out))
      | (Inl e, cur') \<Rightarrow> (Some e, cur', [Processing idx total_rows]))"

text \<open>
  \<open>main\<close> from the point where the connection is open and the CSV is read. When the loop
  ends, the connection is closed and the completion line printed; when an exception
  escapes, the process dies with the traceback. Either way the server discards whatever
  the open transaction holds, so the store that remains is the committed one.
\<close>

definition main :: "'v csv_row list \<Rightarrow> 'v conn \<Rightarrow> py_error option \<times> 'v tables \<times> out_line list" where
  "main df conn0 =
     (case import_loop 1 (length df) df conn0 of
        (None, cur, out) \<Rightarrow> (None, committed cur, [Connecting, Starting] @ out @ [Completed])
      | (Some e, cur, out) \<Rightarrow> (Some e, committed cur, [Connecting, Starting] @ out))"

subsection \<open>Notions of the specification\<close>
















subsection \<open>Sample data\<close>

definition empty_tables :: "int tables" where
  "empty_tables =
     \<lparr>dim_Clients = [], dim_Campaigns = [], dim_AdSets = [], dim_Ads = [], dim_Date = [],
      dim_Demographics = [], dim_Placements = [], fact_Metrics = []\<rparr>"

definition first_identities :: identities where
  "first_identities =
     \<lparr>next_ClientID = 1, next_CampaignID = 1, next_AdSetID = 1, next_AdID = 1,
      next_DemographicID = 1, next_PlacementID = 1\<rparr>"

text \<open>A connection to an empty warehouse whose server will fail as the script says.\<close>

definition fresh_conn :: "string option list \<Rightarrow> int conn" where
  "fresh_conn sc =
     \<lparr>committed = empty_tables, working = empty_tables, idents = first_identities, script = sc\<rparr>"

definition sample_measures :: "int \<Rightarrow> int measures" where
  "sample_measures s =
     \<lparr>Spend = s, Impressions = 1000, Reach = 800, Clicks = 30, Purchases = 4, PurchaseValue = 90,
      VideoPlays_25_Pct = 50, VideoPlays_50_Pct = 40, VideoPlays_75_Pct = 30,
      VideoPlays_95_Pct = 20, VideoPlays_100_Pct = 10, Results = 4, CostPerResult = 25\<rparr>"

definition march_7 :: full_date where
  "march_7 = Timestamp \<lparr>year = 2024, month = 3, day = 7, weekday = 3\<rparr>"

definition sample_row :: "full_date \<Rightarrow> int \<Rightarrow> int csv_row" where
  "sample_row fd s =
     \<lparr>FullDate = fd, AccountFBID = 100, ClientName = Some ''acme'',
      CampaignFBID = 200, CampaignName = Some ''spring'', Objective = None,
      AdSetFBID = 300, AdSetName = None,
      AdFBID = 400, AdName = Some ''banner'', AdBody = None, AdThumbnailURL = None,
      PermanentLink = None,
      AgeBracket = Some ''18-24'', Gender = Some ''female'',
      Platform = Some ''facebook'', Device = Some ''mobile'', Position = Some ''feed'',
      row_measures = sample_measures s\<rparr>"

text \<open>The warehouse after \<open>sample_row march_7 100\<close> has been imported into the empty one.\<close>

definition loaded_tables :: "int tables" where
  "loaded_tables =
     \<lparr>dim_Clients = [\<lparr>cli_ClientID = 1, cli_AccountFBID = 100, cli_ClientName = Some ''acme''\<rparr>],
      dim_Campaigns =
        [\<lparr>cmp_CampaignID = 1, cmp_ClientID = 1, cmp_CampaignFBID = 200,
          cmp_CampaignName = Some ''spring'', cmp_Objective = None\<rparr>],
      dim_AdSets =
        [\<lparr>ads_AdSetID = 1, ads_CampaignID = 1, ads_AdSetFBID = 300, ads_AdSetName = None\<rparr>],
      dim_Ads =
        [\<lparr>ad_AdID = 1, ad_AdSetID = 1, ad_AdFBID = 400, ad_AdName = Some ''banner'',
          ad_AdBody = None, ad_AdThumbnailURL = None, ad_PermanentLink = None\<rparr>],
      dim_Date =
        [\<lparr>dat_DateID = 20240307, dat_FullDate = (2024, 3, 7), dat_Year = 2024, dat_Month = 3,
          dat_Day = 7, dat_DayOfWeek = 4\<rparr>],
      dim_Demographics =
        [\<lparr>dem_DemographicID = 1, dem_AgeBracket = Some ''18-24'', dem_Gender = Some ''female''\<rparr>],
      dim_Placements =
        [\<lparr>plc_PlacementID = 1, plc_Platform = Some ''facebook'', plc_Device = Some ''mobile'',
          plc_Position = Some ''feed''\<rparr>],
      fact_Metrics =
        [\<lparr>f_DateID = 20240307, f_ClientID = 1, f_CampaignID = 1, f_AdSetID = 1, f_AdID = 1,
          f_DemographicID = 1, f_PlacementID = 1, f_measures = sample_measures 100\<rparr>]\<rparr>"

definition second_identities :: identities where
  "second_identities =
     \<lparr>next_ClientID = 2, next_CampaignID = 2, next_AdSetID = 2, next_AdID = 2,
      next_DemographicID = 2, next_PlacementID = 2\<rparr>"

definition loaded_conn :: "string option list \<Rightarrow> int conn" where
  "loaded_conn sc =
     \<lparr>committed = loaded_tables, working = loaded_tables, idents = second_identities, script = sc\<rparr>"

text \<open>
  The loaded warehouse after a record with no age bracket and one with no device have been
  imported as well: one demographic and one placement row with a null natural-key field.
\<close>

definition null_rows_conn :: "int conn" where
  "null_rows_conn =
     (let t = loaded_tables
        \<lparr>dim_Demographics := dim_Demographics loaded_tables @
           [\<lparr>dem_DemographicID = 2, dem_AgeBracket = None, dem_Gender = Some ''female''\<rparr>],
         dim_Placements := dim_Placements loaded_tables @
           [\<lparr>plc_PlacementID = 2, plc_Platform = Some ''facebook'', plc_Device = None,
             plc_Position = Some ''feed''\<rparr>]\<rparr>
      in \<lparr>committed = t, working = t,
          idents = second_identities\<lparr>next_DemographicID := 3, next_PlacementID := 3\<rparr>,
          script = []\<rparr>)"

text \<open>
  A script for a record that resolves with one dimension insert on the loaded warehouse
  (eight look-ups, one insert, the \<open>DELETE\<close>): the tenth statement, the \<open>INSERT\<close> into
  \<open>fact_Metrics\<close>, fails.
\<close>

definition fact_insert_fails :: "string option list" where
  "fact_insert_fails =
     [None, None, None, None, None, None, None, None, None, Some ''insert failed'']"

text \<open>
  A script for the first record on the empty warehouse (seven look-ups, seven inserts, the
  \<open>DELETE\<close>): the sixteenth statement, the \<open>INSERT\<close> into \<open>fact_Metrics\<close>, times out.
\<close>

definition first_fact_insert_times_out :: "string option list" where
  "first_fact_insert_times_out =
     [None, None, None, None, None, None, None, None, None, None, None, None, None, None, None,
      Some ''timeout'']"

text \<open>
  A script for a batch of two on the empty warehouse: the first record runs (sixteen
  statements and the commit), the first statement of the second record meets a deadlock.
\<close>

definition second_record_deadlocks :: "string option list" where
  "second_record_deadlocks =
     [None, None, None, None, None, None, None, None, None, None, None, None, None, None, None,
      None, None, Some ''deadlock'']"

text \<open>
  A second record under an account, campaign, ad set and ad of its own; and the parents of
  the natural keys of the two sample records.
\<close>

definition other_row :: "int csv_row" where
  "other_row =
     (sample_row march_7 150)
       \<lparr>AccountFBID := 101, CampaignFBID := 201, AdSetFBID := 301, AdFBID := 401\<rparr>"

definition sample_account_of :: "int \<Rightarrow> int" where
  "sample_account_of campaign_fbid = (if campaign_fbid = 200 then 100 else 101)"

definition sample_campaign_of :: "int \<Rightarrow> int" where
  "sample_campaign_of adset_fbid = (if adset_fbid = 300 then 200 else 201)"

definition sample_adset_of :: "int \<Rightarrow> int" where
  "sample_adset_of ad_fbid = (if ad_fbid = 400 then 300 else 301)"

text \<open>
  A record that names the campaign and the ad of the first sample record under another
  account and another ad set.
\<close>

definition stray_row :: "int csv_row" where
  "stray_row = (sample_row march_7 150)\<lparr>AccountFBID := 101, AdSetFBID := 301\<rparr>"

section \<open>Properties\<close>

subsection \<open>The date key\<close>

lemma digit_val_digit_char: "n < 10 \<Longrightarrow> digit_val (digit_char n) = n"
  by (simp add: digit_val_def digit_char_def)

lemma is_digit_digit_char: "n < 10 \<Longrightarrow> is_digit (digit_char n)"
  by (simp add: is_digit_def digit_char_def)

lemma decimal_not_Nil: "decimal n \<noteq> []"
  by (subst decimal.simps) simp

lemma digits_decimal: "list_all is_digit (decimal n)"
proof (induction n rule: decimal.induct)
  case (1 n)
  show ?case
  proof (cases "n < 10")
    case True
    then show ?thesis by (subst decimal.simps) (simp add: is_digit_digit_char)
  next
    case False
    with 1 show ?thesis by (subst decimal.simps) (simp add: is_digit_digit_char)
  qed
qed

lemma digits_value_snoc: "digits_value (s @ [ch]) = digits_value s * 10 + digit_val ch"
  by (simp add: digits_value_def)

lemma digits_value_append:
  "digits_value (s @ t) = digits_value s * 10 ^ length t + digits_value t"
proof (induction t rule: rev_induct)
  case Nil
  show ?case by (simp add: digits_value_def)
next
  case (snoc ch t)
  have "digits_value (s @ t @ [ch]) = digits_value ((s @ t) @ [ch])" by simp
  also have "\<dots> = digits_value (s @ t) * 10 + digit_val ch" by (rule digits_value_snoc)
  finally show ?case using snoc by (simp add: digits_value_snoc algebra_simps)
qed

lemma digits_value_decimal: "digits_value (decimal n) = n"
proof (induction n rule: decimal.induct)
  case (1 n)
  show ?case
  proof (cases "n < 10")
    case True
    then show ?thesis
      by (subst decimal.simps) (simp add: digits_value_def digit_val_digit_char)
  next
    case False
    with 1 show ?thesis
      by (subst decimal.simps) (simp add: digits_value_snoc digit_val_digit_char)
  qed
qed

lemma digits_value_zeros: "digits_value (replicate k (CHR ''0'')) = 0"
  by (induction k) (simp_all add: digits_value_def digit_val_def)

lemma digits_value_zero_pad: "digits_value (zero_pad w s) = digits_value s"
  by (simp add: zero_pad_def digits_value_append digits_value_zeros)

lemma digits_zero_pad: "list_all is_digit s \<Longrightarrow> list_all is_digit (zero_pad w s)"
  by (auto simp: zero_pad_def list_all_iff is_digit_def)

lemma decimal_one_digit: "n < 10 \<Longrightarrow> decimal n = [digit_char n]"
  by (subst decimal.simps) simp

lemma length_decimal_two:
  assumes "n < 100"
  shows "length (decimal n) \<le> 2"
proof (cases "n < 10")
  case True
  then show ?thesis by (simp add: decimal_one_digit)
next
  case False
  from assms have "n div 10 < 10" by simp
  then have "decimal (n div 10) = [digit_char (n div 10)]" by (rule decimal_one_digit)
  with False show ?thesis by (subst decimal.simps) simp
qed

lemma length_zero_pad_two: "n < 100 \<Longrightarrow> length (zero_pad 2 (decimal n)) = 2"
  using length_decimal_two [of n] by (simp add: zero_pad_def)

lemma date_key_Timestamp:
  assumes "month d < 100" and "day d < 100"
  shows "date_key (Timestamp d) = Inr (int (year d * 10000 + month d * 100 + day d))"
proof -
  let ?s = "zero_pad 4 (decimal (year d)) @ zero_pad 2 (decimal (month d))
            @ zero_pad 2 (decimal (day d))"
  have digits: "list_all is_digit ?s"
    by (simp add: digits_zero_pad digits_decimal)
  have nonempty: "?s \<noteq> []"
    by (simp add: zero_pad_def decimal_not_Nil)
  have "digits_value ?s = year d * 10000 + month d * 100 + day d"
    using assms
    by (simp add: digits_value_append digits_value_zero_pad digits_value_decimal
        length_zero_pad_two)
  with digits nonempty show ?thesis
    by (simp add: date_key_def strftime_Ymd_def py_int_def)
qed

lemma date_key_NaT: "date_key NaT = Inl ValueError"
  by (simp add: date_key_def strftime_Ymd_def)

subsection \<open>Sequencing, statements and results\<close>

lemma and_then_apply:
  "and_then m f cur = (case m cur of (Inl e, cur') \<Rightarrow> (Inl e, cur') | (Inr a, cur') \<Rightarrow> f a cur')"
  by (simp add: and_then_def)

lemma return_apply: "return a cur = (Inr a, cur)"
  by (simp add: return_def)

lemma raise_apply: "raise e cur = (Inl e, cur)"
  by (simp add: raise_def)

lemma and_then_Inr_iff:
  "and_then m f cur = (Inr b, cur'') \<longleftrightarrow>
     (\<exists>a cur'. m cur = (Inr a, cur') \<and> f a cur' = (Inr b, cur''))"
  by (auto simp: and_then_apply split: prod.splits sum.splits)

lemma and_then_Inl_iff:
  "and_then m f cur = (Inl e, cur'') \<longleftrightarrow>
     m cur = (Inl e, cur'') \<or> (\<exists>a cur'. m cur = (Inr a, cur') \<and> f a cur' = (Inl e, cur''))"
  by (auto simp: and_then_apply split: prod.splits sum.splits)

lemma execute_Inr_iff:
  "execute stmt cur = (Inr a, cur') \<longleftrightarrow>
     next_fault cur = None \<and>
     (\<exists>t i. stmt (working cur) (idents cur) = (a, t, i)
            \<and> cur' = cur\<lparr>working := t, idents := i, script := tl (script cur)\<rparr>)"
  by (auto simp: execute_def split: option.splits prod.splits)


lemma next_fault_Nil: "script cur = [] \<Longrightarrow> next_fault cur = None"
  by (simp add: next_fault_def)

lemma find_None_ball: "find P xs = None \<longleftrightarrow> (\<forall>x\<in>set xs. \<not> P x)"
  by (induction xs) auto

lemma find_Some_mem: "find P xs = Some x \<Longrightarrow> x \<in> set xs \<and> P x"
  by (induction xs) (auto split: if_splits)

lemma get_or_create_date_result:
  assumes key: "date_key (Timestamp d) = Inr K"
    and run: "get_or_create_date (Timestamp d) cur = (Inr k, cur')"
  shows "k = K"
    and "working cur' =
       (if \<exists>r\<in>set (dim_Date (working cur)). dat_DateID r = K then working cur
        else (working cur)\<lparr>dim_Date := dim_Date (working cur) @
               [\<lparr>dat_DateID = K, dat_FullDate = (year d, month d, day d), dat_Year = year d,
                 dat_Month = month d, dat_Day = day d, dat_DayOfWeek = weekday d + 1\<rparr>]\<rparr>)"
    and "idents cur' = idents cur" and "committed cur' = committed cur"
  using run
  by (auto simp: get_or_create_date_def key and_then_Inr_iff execute_Inr_iff return_apply
      select_DateID_def insert_Date_def find_None_ball split: option.splits dest: find_Some_mem)

lemma get_or_create_date_returns:
  assumes key: "date_key (Timestamp d) = Inr K" and quiet: "script cur = []"
  shows "fst (get_or_create_date (Timestamp d) cur) = Inr K"
  using quiet
  by (simp add: get_or_create_date_def key and_then_apply execute_def next_fault_def return_apply
      select_DateID_def insert_Date_def split: option.splits)

subsection \<open>The date dimension\<close>

lemma filter_Nil_ball: "filter P xs = [] \<longleftrightarrow> (\<forall>x\<in>set xs. \<not> P x)"
  by (induction xs) auto

lemma count_max_one:
  "\<exists>x\<in>set xs. P x \<Longrightarrow> max 1 (length (filter P xs)) = length (filter P xs)"
  by (induction xs) auto

lemmas run_simps = and_then_apply return_apply raise_apply execute_def commit_def rollback_def
  next_fault_def
lemmas weak_congs = sum.case_cong_weak prod.case_cong_weak option.case_cong_weak
  list.case_cong_weak if_weak_cong full_date.case_cong_weak py_error.case_cong_weak
lemmas stmt_defs = select_ClientID_def insert_Client_def select_CampaignID_def insert_Campaign_def
  select_AdSetID_def insert_AdSet_def select_AdID_def insert_Ad_def select_DateID_def
  insert_Date_def select_DemographicID_def insert_Demographic_def select_PlacementID_def
  insert_Placement_def delete_Metrics_def insert_Metrics_def same_grain_def sql_eq_def
lemmas goc_defs = get_or_create_client_def get_or_create_campaign_def get_or_create_adset_def
  get_or_create_ad_def get_or_create_date_def get_or_create_demographic_def
  get_or_create_placement_def
lemmas sample_defs = march_7_def date_key_Timestamp date_key_NaT sample_row_def fresh_conn_def
  empty_tables_def first_identities_def sample_measures_def loaded_conn_def loaded_tables_def
  second_identities_def null_rows_conn_def fact_insert_fails_def
  first_fact_insert_times_out_def second_record_deadlocks_def other_row_def
  sample_account_of_def sample_campaign_of_def sample_adset_of_def stray_row_def

text \<open>
  Claim C6. For every calendar date the derived date key is
  \<open>year * 10000 + month * 100 + day\<close> (20240307 for 2024-03-07). Every call of
  \<open>get_or_create_date\<close> that returns gives that key, and it does return when the store
  raises no failure. A call inserts a \<open>dim_Date\<close> row only when no row has the key, and then
  exactly one: the number of rows with the key goes from \<open>n\<close> to \<open>max 1 n\<close>. Resolving the
  same date again returns the same key and changes no table.
\<close>

theorem derived_date_key:
  assumes "1 \<le> month d" and "month d \<le> 12" and "1 \<le> day d" and "day d \<le> 31"
  shows "date_key (Timestamp d) = Inr (int (year d * 10000 + month d * 100 + day d))
    \<and> (script cur = [] \<longrightarrow>
         fst (get_or_create_date (Timestamp d) cur)
           = Inr (int (year d * 10000 + month d * 100 + day d)))
    \<and> (get_or_create_date (Timestamp d) cur = (Inr k, cur') \<longrightarrow>
         k = int (year d * 10000 + month d * 100 + day d)
         \<and> length (filter (\<lambda>r. dat_DateID r = k) (dim_Date (working cur')))
             = max 1 (length (filter (\<lambda>r. dat_DateID r = k) (dim_Date (working cur))))
         \<and> (get_or_create_date (Timestamp d) cur' = (Inr k', cur'') \<longrightarrow>
              k' = k \<and> working cur'' = working cur'))"
proof -
  let ?K = "int (year d * 10000 + month d * 100 + day d)"
  have key: "date_key (Timestamp d) = Inr ?K"
    using assms by (simp add: date_key_Timestamp)
  have returns: "script cur = [] \<longrightarrow> fst (get_or_create_date (Timestamp d) cur) = Inr ?K"
    using key by (simp add: get_or_create_date_returns)
  have effect: "k = ?K
         \<and> length (filter (\<lambda>r. dat_DateID r = k) (dim_Date (working cur')))
             = max 1 (length (filter (\<lambda>r. dat_DateID r = k) (dim_Date (working cur))))
         \<and> (get_or_create_date (Timestamp d) cur' = (Inr k', cur'') \<longrightarrow>
              k' = k \<and> working cur'' = working cur')"
    if first: "get_or_create_date (Timestamp d) cur = (Inr k, cur')"
  proof -
    note r1 = get_or_create_date_result [OF key first]
    have k: "k = ?K" by (rule r1(1))
    have count: "length (filter (\<lambda>r. dat_DateID r = ?K) (dim_Date (working cur')))
             = max 1 (length (filter (\<lambda>r. dat_DateID r = ?K) (dim_Date (working cur))))"
    proof (cases "\<exists>r\<in>set (dim_Date (working cur)). dat_DateID r = ?K")
      case True
      then show ?thesis using r1(2) count_max_one [OF True] by simp
    next
      case False
      then have "filter (\<lambda>r. dat_DateID r = ?K) (dim_Date (working cur)) = []"
        by (simp add: filter_Nil_ball)
      with False show ?thesis using r1(2) by simp
    qed
    have present: "\<exists>r\<in>set (dim_Date (working cur')). dat_DateID r = ?K"
      using r1(2) by (auto split: if_splits)
    have again: "k' = k \<and> working cur'' = working cur'"
      if second: "get_or_create_date (Timestamp d) cur' = (Inr k', cur'')"
      using get_or_create_date_result(1,2) [OF key second] present k by simp
    from k count again show ?thesis by simp
  qed
  from key returns effect show ?thesis by blast
qed

theorem derived_date_key_witness:
  "date_key march_7 = Inr 20240307
   \<and> get_or_create_date march_7 (fresh_conn []) =
       (Inr 20240307,
        (fresh_conn [])\<lparr>working := empty_tables\<lparr>dim_Date :=
           [\<lparr>dat_DateID = 20240307, dat_FullDate = (2024, 3, 7), dat_Year = 2024, dat_Month = 3,
             dat_Day = 7, dat_DayOfWeek = 4\<rparr>]\<rparr>\<rparr>)
   \<and> get_or_create_date march_7
       ((fresh_conn [])\<lparr>working := empty_tables\<lparr>dim_Date :=
           [\<lparr>dat_DateID = 20240307, dat_FullDate = (2024, 3, 7), dat_Year = 2024, dat_Month = 3,
             dat_Day = 7, dat_DayOfWeek = 4\<rparr>]\<rparr>\<rparr>) =
       (Inr 20240307,
        (fresh_conn [])\<lparr>working := empty_tables\<lparr>dim_Date :=
           [\<lparr>dat_DateID = 20240307, dat_FullDate = (2024, 3, 7), dat_Year = 2024, dat_Month = 3,
             dat_Day = 7, dat_DayOfWeek = 4\<rparr>]\<rparr>\<rparr>)"
  using derived_date_key [of "\<lparr>year = 2024, month = 3, day = 7, weekday = 3\<rparr>" "fresh_conn []"
      20240307
      "(fresh_conn [])\<lparr>working := empty_tables\<lparr>dim_Date :=
           [\<lparr>dat_DateID = 20240307, dat_FullDate = (2024, 3, 7), dat_Year = 2024, dat_Month = 3,
             dat_Day = 7, dat_DayOfWeek = 4\<rparr>]\<rparr>\<rparr>"
      20240307
      "(fresh_conn [])\<lparr>working := empty_tables\<lparr>dim_Date :=
           [\<lparr>dat_DateID = 20240307, dat_FullDate = (2024, 3, 7), dat_Year = 2024, dat_Month = 3,
             dat_Day = 7, dat_DayOfWeek = 4\<rparr>]\<rparr>\<rparr>"]
  by (simp add: get_or_create_date_def run_simps stmt_defs sample_defs cong: weak_congs)

lemma loaded_reachable:
  "main [sample_row march_7 100] (fresh_conn []) =
     (None, loaded_tables, [Connecting, Starting, Processing 1 1, Completed])"
  by (simp add: main_def process_row_def goc_defs run_simps stmt_defs sample_defs cong: weak_congs)

lemma find_Some_ex: "\<exists>x\<in>set xs. P x \<Longrightarrow> \<exists>y. find P xs = Some y"
  by (cases "find P xs") (simp_all add: find_None_ball)

subsection \<open>Resolution of a natural key that is already stored\<close>

text \<open>
  Claim C10. When a row with the given FBID exists, \<open>get_or_create_campaign\<close>,
  \<open>get_or_create_adset\<close> and \<open>get_or_create_ad\<close> return the same result (key or
  exception) and leave the same connection state whatever the parent key and the
  attributes passed: two runs that differ only in those arguments are equal.
\<close>

theorem existing_key_ignores_arguments:
  "((\<exists>r\<in>set (dim_Campaigns (working cur)). cmp_CampaignFBID r = campaign_fbid) \<longrightarrow>
      get_or_create_campaign client_id campaign_fbid campaign_name objective cur
        = get_or_create_campaign client_id' campaign_fbid campaign_name' objective' cur)
   \<and> ((\<exists>r\<in>set (dim_AdSets (working cur)). ads_AdSetFBID r = adset_fbid) \<longrightarrow>
      get_or_create_adset campaign_id adset_fbid adset_name cur
        = get_or_create_adset campaign_id' adset_fbid adset_name' cur)
   \<and> ((\<exists>r\<in>set (dim_Ads (working cur)). ad_AdFBID r = ad_fbid) \<longrightarrow>
      get_or_create_ad adset_id ad_fbid ad_name body thumbnail_url permanent_link cur
        = get_or_create_ad adset_id' ad_fbid ad_name' body' thumbnail_url' permanent_link' cur)"
proof (intro conjI impI)
  assume "\<exists>r\<in>set (dim_Campaigns (working cur)). cmp_CampaignFBID r = campaign_fbid"
  then obtain y where
    "find (\<lambda>r. cmp_CampaignFBID r = campaign_fbid) (dim_Campaigns (working cur)) = Some y"
    by (rule exE [OF find_Some_ex])
  then show "get_or_create_campaign client_id campaign_fbid campaign_name objective cur
        = get_or_create_campaign client_id' campaign_fbid campaign_name' objective' cur"
    by (simp add: get_or_create_campaign_def and_then_apply execute_def select_CampaignID_def
        return_apply split: option.splits)
next
  assume "\<exists>r\<in>set (dim_AdSets (working cur)). ads_AdSetFBID r = adset_fbid"
  then obtain y where
    "find (\<lambda>r. ads_AdSetFBID r = adset_fbid) (dim_AdSets (working cur)) = Some y"
    by (rule exE [OF find_Some_ex])
  then show "get_or_create_adset campaign_id adset_fbid adset_name cur
        = get_or_create_adset campaign_id' adset_fbid adset_name' cur"
    by (simp add: get_or_create_adset_def and_then_apply execute_def select_AdSetID_def
        return_apply split: option.splits)
next
  assume "\<exists>r\<in>set (dim_Ads (working cur)). ad_AdFBID r = ad_fbid"
  then obtain y where
    "find (\<lambda>r. ad_AdFBID r = ad_fbid) (dim_Ads (working cur)) = Some y"
    by (rule exE [OF find_Some_ex])
  then show "get_or_create_ad adset_id ad_fbid ad_name body thumbnail_url permanent_link cur
        = get_or_create_ad adset_id' ad_fbid ad_name' body' thumbnail_url' permanent_link' cur"
    by (simp add: get_or_create_ad_def and_then_apply execute_def select_AdID_def
        return_apply split: option.splits)
qed

theorem existing_key_ignores_arguments_witness:
  "(\<exists>r\<in>set (dim_Campaigns (working (loaded_conn []))). cmp_CampaignFBID r = 200)
   \<and> (\<exists>r\<in>set (dim_AdSets (working (loaded_conn []))). ads_AdSetFBID r = 300)
   \<and> (\<exists>r\<in>set (dim_Ads (working (loaded_conn []))). ad_AdFBID r = 400)
   \<and> get_or_create_campaign 1 200 (Some ''spring'') None (loaded_conn [])
       = (Inr 1, loaded_conn [])
   \<and> get_or_create_campaign 77 200 None (Some ''sales'') (loaded_conn [])
       = (Inr 1, loaded_conn [])
   \<and> get_or_create_adset 1 300 None (loaded_conn []) = (Inr 1, loaded_conn [])
   \<and> get_or_create_adset 77 300 (Some ''other'') (loaded_conn []) = (Inr 1, loaded_conn [])
   \<and> get_or_create_ad 1 400 (Some ''banner'') None None None (loaded_conn [])
       = (Inr 1, loaded_conn [])
   \<and> get_or_create_ad 77 400 None (Some ''text'') None None (loaded_conn [])
       = (Inr 1, loaded_conn [])"
  using existing_key_ignores_arguments [where cur = "loaded_conn []"
      and campaign_fbid = 200 and client_id = 1 and campaign_name = "Some ''spring''"
      and objective = None and client_id' = 77 and campaign_name' = None
      and objective' = "Some ''sales''"
      and adset_fbid = 300 and campaign_id = 1 and adset_name = None and campaign_id' = 77
      and adset_name' = "Some ''other''"
      and ad_fbid = 400 and adset_id = 1 and ad_name = "Some ''banner''" and body = None
      and thumbnail_url = None and permanent_link = None and adset_id' = 77 and ad_name' = None
      and body' = "Some ''text''" and thumbnail_url' = None and permanent_link' = None]
  by (simp add: goc_defs run_simps stmt_defs sample_defs cong: weak_congs)

subsection \<open>What a successful look-up-or-insert did\<close>

lemma get_or_create_client_result:
  assumes "get_or_create_client account_fbid name cur = (Inr k, cur')"
  shows "committed cur' = committed cur \<and>
    (case find (\<lambda>r. cli_AccountFBID r = account_fbid) (dim_Clients (working cur)) of
       Some r \<Rightarrow> k = cli_ClientID r \<and> working cur' = working cur \<and> idents cur' = idents cur
     | None \<Rightarrow>
         k = next_ClientID (idents cur)
         \<and> working cur' = (working cur)\<lparr>dim_Clients := dim_Clients (working cur) @
               [\<lparr>cli_ClientID = k, cli_AccountFBID = account_fbid, cli_ClientName = name\<rparr>]\<rparr>
         \<and> idents cur' = (idents cur)\<lparr>next_ClientID := k + 1\<rparr>)"
  using assms
  by (auto simp: get_or_create_client_def and_then_Inr_iff execute_Inr_iff return_apply
      select_ClientID_def insert_Client_def split: option.splits)

lemma get_or_create_campaign_result:
  assumes "get_or_create_campaign client_id campaign_fbid name objective cur = (Inr k, cur')"
  shows "committed cur' = committed cur \<and>
    (case find (\<lambda>r. cmp_CampaignFBID r = campaign_fbid) (dim_Campaigns (working cur)) of
       Some r \<Rightarrow> k = cmp_CampaignID r \<and> working cur' = working cur \<and> idents cur' = idents cur
     | None \<Rightarrow>
         k = next_CampaignID (idents cur)
         \<and> working cur' = (working cur)\<lparr>dim_Campaigns := dim_Campaigns (working cur) @
               [\<lparr>cmp_CampaignID = k, cmp_ClientID = client_id, cmp_CampaignFBID = campaign_fbid,
                 cmp_CampaignName = name, cmp_Objective = objective\<rparr>]\<rparr>
         \<and> idents cur' = (idents cur)\<lparr>next_CampaignID := k + 1\<rparr>)"
  using assms
  by (auto simp: get_or_create_campaign_def and_then_Inr_iff execute_Inr_iff return_apply
      select_CampaignID_def insert_Campaign_def split: option.splits)

lemma get_or_create_adset_result:
  assumes "get_or_create_adset campaign_id adset_fbid name cur = (Inr k, cur')"
  shows "committed cur' = committed cur \<and>
    (case find (\<lambda>r. ads_AdSetFBID r = adset_fbid) (dim_AdSets (working cur)) of
       Some r \<Rightarrow> k = ads_AdSetID r \<and> working cur' = working cur \<and> idents cur' = idents cur
     | None \<Rightarrow>
         k = next_AdSetID (idents cur)
         \<and> working cur' = (working cur)\<lparr>dim_AdSets := dim_AdSets (working cur) @
               [\<lparr>ads_AdSetID = k, ads_CampaignID = campaign_id, ads_AdSetFBID = adset_fbid,
                 ads_AdSetName = name\<rparr>]\<rparr>
         \<and> idents cur' = (idents cur)\<lparr>next_AdSetID := k + 1\<rparr>)"
  using assms
  by (auto simp: get_or_create_adset_def and_then_Inr_iff execute_Inr_iff return_apply
      select_AdSetID_def insert_AdSet_def split: option.splits)

lemma get_or_create_ad_result:
  assumes "get_or_create_ad adset_id ad_fbid name body thumbnail_url permanent_link cur
             = (Inr k, cur')"
  shows "committed cur' = committed cur \<and>
    (case find (\<lambda>r. ad_AdFBID r = ad_fbid) (dim_Ads (working cur)) of
       Some r \<Rightarrow> k = ad_AdID r \<and> working cur' = working cur \<and> idents cur' = idents cur
     | None \<Rightarrow>
         k = next_AdID (idents cur)
         \<and> working cur' = (working cur)\<lparr>dim_Ads := dim_Ads (working cur) @
               [\<lparr>ad_AdID = k, ad_AdSetID = adset_id, ad_AdFBID = ad_fbid, ad_AdName = name,
                 ad_AdBody = body, ad_AdThumbnailURL = thumbnail_url,
                 ad_PermanentLink = permanent_link\<rparr>]\<rparr>
         \<and> idents cur' = (idents cur)\<lparr>next_AdID := k + 1\<rparr>)"
  using assms
  by (auto simp: get_or_create_ad_def and_then_Inr_iff execute_Inr_iff return_apply
      select_AdID_def insert_Ad_def split: option.splits)

lemma get_or_create_demographic_result:
  assumes "get_or_create_demographic age_bracket gender cur = (Inr k, cur')"
  shows "committed cur' = committed cur \<and>
    (case find (\<lambda>r. sql_eq (dem_AgeBracket r) age_bracket \<and> sql_eq (dem_Gender r) gender)
            (dim_Demographics (working cur)) of
       Some r \<Rightarrow> k = dem_DemographicID r \<and> working cur' = working cur \<and> idents cur' = idents cur
     | None \<Rightarrow>
         k = next_DemographicID (idents cur)
         \<and> working cur' = (working cur)\<lparr>dim_Demographics := dim_Demographics (working cur) @
               [\<lparr>dem_DemographicID = k, dem_AgeBracket = age_bracket, dem_Gender = gender\<rparr>]\<rparr>
         \<and> idents cur' = (idents cur)\<lparr>next_DemographicID := k + 1\<rparr>)"
  using assms
  by (auto simp: get_or_create_demographic_def and_then_Inr_iff execute_Inr_iff return_apply
      select_DemographicID_def insert_Demographic_def split: option.splits)

lemma get_or_create_placement_result:
  assumes "get_or_create_placement platform device position cur = (Inr k, cur')"
  shows "committed cur' = committed cur \<and>
    (case find (\<lambda>r. sql_eq (plc_Platform r) platform \<and> sql_eq (plc_Device r) device
                    \<and> sql_eq (plc_Position r) position)
            (dim_Placements (working cur)) of
       Some r \<Rightarrow> k = plc_PlacementID r \<and> working cur' = working cur \<and> idents cur' = idents cur
     | None \<Rightarrow>
         k = next_PlacementID (idents cur)
         \<and> working cur' = (working cur)\<lparr>dim_Placements := dim_Placements (working cur) @
               [\<lparr>plc_PlacementID = k, plc_Platform = platform, plc_Device = device,
                 plc_Position = position\<rparr>]\<rparr>
         \<and> idents cur' = (idents cur)\<lparr>next_PlacementID := k + 1\<rparr>)"
  using assms
  by (auto simp: get_or_create_placement_def and_then_Inr_iff execute_Inr_iff return_apply
      select_PlacementID_def insert_Placement_def split: option.splits)

subsection \<open>Composite natural keys with a null component\<close>

lemma sql_eq_None [simp]: "sql_eq col None = False"
  by (simp add: sql_eq_def split: option.splits)

lemma find_False: "(\<And>x. \<not> P x) \<Longrightarrow> find P xs = None"
  by (simp add: find_None_ball)

lemma get_or_create_demographic_returns:
  assumes "script cur = []" and "age_bracket = None \<or> gender = None"
  shows "fst (get_or_create_demographic age_bracket gender cur)
           = Inr (next_DemographicID (idents cur))"
proof -
  have "find (\<lambda>r. sql_eq (dem_AgeBracket r) age_bracket \<and> sql_eq (dem_Gender r) gender)
          (dim_Demographics (working cur)) = None"
    using assms(2) by (intro find_False) auto
  then show ?thesis
    using assms(1)
    by (simp add: get_or_create_demographic_def and_then_apply execute_def next_fault_def
        select_DemographicID_def insert_Demographic_def)
qed

lemma get_or_create_placement_returns:
  assumes "script cur = []" and "platform = None \<or> device = None \<or> position = None"
  shows "fst (get_or_create_placement platform device position cur)
           = Inr (next_PlacementID (idents cur))"
proof -
  have "find (\<lambda>r. sql_eq (plc_Platform r) platform \<and> sql_eq (plc_Device r) device
                  \<and> sql_eq (plc_Position r) position)
          (dim_Placements (working cur)) = None"
    using assms(2) by (intro find_False) auto
  then show ?thesis
    using assms(1)
    by (simp add: get_or_create_placement_def and_then_apply execute_def next_fault_def
        select_PlacementID_def insert_Placement_def)
qed

text \<open>
  Claim C9. When \<open>age_bracket\<close> or \<open>gender\<close> is null, the look-up of
  \<open>get_or_create_demographic\<close> matches no row, whatever the table holds. So the call, when
  the store raises nothing, returns the next identity value; and every call that returns has
  appended a row with the given (null) values under that key, which is below no key of the
  table when the keys of the table are below the identity counter. The same holds for
  \<open>get_or_create_placement\<close> when \<open>platform\<close>, \<open>device\<close> or \<open>position\<close> is null.
\<close>

theorem null_key_always_inserts:
  "(age_bracket = None \<or> gender = None \<longrightarrow>
      fst (select_DemographicID age_bracket gender t i) = None
      \<and> (script cur = [] \<longrightarrow>
           fst (get_or_create_demographic age_bracket gender cur)
             = Inr (next_DemographicID (idents cur)))
      \<and> (get_or_create_demographic age_bracket gender cur = (Inr k, cur') \<longrightarrow>
           k = next_DemographicID (idents cur)
           \<and> dim_Demographics (working cur') = dim_Demographics (working cur) @
                [\<lparr>dem_DemographicID = k, dem_AgeBracket = age_bracket, dem_Gender = gender\<rparr>]
           \<and> ((\<forall>r\<in>set (dim_Demographics (working cur)).
                  dem_DemographicID r < next_DemographicID (idents cur)) \<longrightarrow>
                (\<forall>r\<in>set (dim_Demographics (working cur)). dem_DemographicID r \<noteq> k))))
   \<and> (platform = None \<or> device = None \<or> position = None \<longrightarrow>
      fst (select_PlacementID platform device position t i) = None
      \<and> (script cur = [] \<longrightarrow>
           fst (get_or_create_placement platform device position cur)
             = Inr (next_PlacementID (idents cur)))
      \<and> (get_or_create_placement platform device position cur = (Inr p, cur'') \<longrightarrow>
           p = next_PlacementID (idents cur)
           \<and> dim_Placements (working cur'') = dim_Placements (working cur) @
                [\<lparr>plc_PlacementID = p, plc_Platform = platform, plc_Device = device,
                  plc_Position = position\<rparr>]
           \<and> ((\<forall>r\<in>set (dim_Placements (working cur)).
                  plc_PlacementID r < next_PlacementID (idents cur)) \<longrightarrow>
                (\<forall>r\<in>set (dim_Placements (working cur)). plc_PlacementID r \<noteq> p))))"
proof (intro conjI impI)
  assume null: "age_bracket = None \<or> gender = None"
  have none: "find (\<lambda>r. sql_eq (dem_AgeBracket r) age_bracket \<and> sql_eq (dem_Gender r) gender) xs
                = None" for xs
    using null by (intro find_False) auto
  show "fst (select_DemographicID age_bracket gender t i) = None"
    by (simp add: select_DemographicID_def none)
  show "fst (get_or_create_demographic age_bracket gender cur)
          = Inr (next_DemographicID (idents cur))" if "script cur = []"
    using that null by (rule get_or_create_demographic_returns)
  {
    assume run: "get_or_create_demographic age_bracket gender cur = (Inr k, cur')"
    from get_or_create_demographic_result [OF run]
    show k: "k = next_DemographicID (idents cur)"
      and "dim_Demographics (working cur') = dim_Demographics (working cur) @
            [\<lparr>dem_DemographicID = k, dem_AgeBracket = age_bracket, dem_Gender = gender\<rparr>]"
      by (simp_all add: none)
    show "\<forall>r\<in>set (dim_Demographics (working cur)). dem_DemographicID r \<noteq> k"
      if "\<forall>r\<in>set (dim_Demographics (working cur)).
            dem_DemographicID r < next_DemographicID (idents cur)"
      using that k by auto
  }
next
  assume null: "platform = None \<or> device = None \<or> position = None"
  have none: "find (\<lambda>r. sql_eq (plc_Platform r) platform \<and> sql_eq (plc_Device r) device
                  \<and> sql_eq (plc_Position r) position) xs = None" for xs
    using null by (intro find_False) auto
  show "fst (select_PlacementID platform device position t i) = None"
    by (simp add: select_PlacementID_def none)
  show "fst (get_or_create_placement platform device position cur)
          = Inr (next_PlacementID (idents cur))" if "script cur = []"
    using that null by (rule get_or_create_placement_returns)
  {
    assume run: "get_or_create_placement platform device position cur = (Inr p, cur'')"
    from get_or_create_placement_result [OF run]
    show k: "p = next_PlacementID (idents cur)"
      and "dim_Placements (working cur'') = dim_Placements (working cur) @
            [\<lparr>plc_PlacementID = p, plc_Platform = platform, plc_Device = device,
              plc_Position = position\<rparr>]"
      by (simp_all add: none)
    show "\<forall>r\<in>set (dim_Placements (working cur)). plc_PlacementID r \<noteq> p"
      if "\<forall>r\<in>set (dim_Placements (working cur)).
            plc_PlacementID r < next_PlacementID (idents cur)"
      using that k by auto
  }
qed

theorem null_key_always_inserts_witness:
  "fst (get_or_create_demographic None (Some ''female'') null_rows_conn) = Inr 3
   \<and> dim_Demographics
        (working (snd (get_or_create_demographic None (Some ''female'') null_rows_conn))) =
       [\<lparr>dem_DemographicID = 1, dem_AgeBracket = Some ''18-24'', dem_Gender = Some ''female''\<rparr>,
        \<lparr>dem_DemographicID = 2, dem_AgeBracket = None, dem_Gender = Some ''female''\<rparr>,
        \<lparr>dem_DemographicID = 3, dem_AgeBracket = None, dem_Gender = Some ''female''\<rparr>]
   \<and> fst (get_or_create_placement (Some ''facebook'') None (Some ''feed'') null_rows_conn) = Inr 3
   \<and> dim_Placements
        (working (snd (get_or_create_placement (Some ''facebook'') None (Some ''feed'')
                         null_rows_conn))) =
       [\<lparr>plc_PlacementID = 1, plc_Platform = Some ''facebook'', plc_Device = Some ''mobile'',
          plc_Position = Some ''feed''\<rparr>,
        \<lparr>plc_PlacementID = 2, plc_Platform = Some ''facebook'', plc_Device = None,
          plc_Position = Some ''feed''\<rparr>,
        \<lparr>plc_PlacementID = 3, plc_Platform = Some ''facebook'', plc_Device = None,
          plc_Position = Some ''feed''\<rparr>]"
  using null_key_always_inserts [where cur = null_rows_conn
      and t = "working null_rows_conn" and i = "idents null_rows_conn"
      and age_bracket = None and gender = "Some ''female''" and k = 3
      and cur' = "snd (get_or_create_demographic None (Some ''female'') null_rows_conn)"
      and platform = "Some ''facebook''" and device = None and position = "Some ''feed''"
      and p = 3
      and cur'' = "snd (get_or_create_placement (Some ''facebook'') None (Some ''feed'')
                         null_rows_conn)"]
  by (simp add: goc_defs run_simps stmt_defs sample_defs Let_def cong: weak_congs)

subsection \<open>Resolving the same natural key twice\<close>

text \<open>
  Claim C4 at a demographic key whose age bracket is null: the first resolution on the
  empty warehouse inserts a row and returns key 1; the second, with the same natural key,
  does not find that row, inserts another and returns key 2. Two rows with the same natural
  key exist afterwards.
\<close>

theorem null_key_resolved_twice:
  "fst (get_or_create_demographic None (Some ''female'') (fresh_conn [])) = Inr 1
   \<and> fst (get_or_create_demographic None (Some ''female'')
            (snd (get_or_create_demographic None (Some ''female'') (fresh_conn [])))) = Inr 2
   \<and> dim_Demographics (working (snd (get_or_create_demographic None (Some ''female'')
            (snd (get_or_create_demographic None (Some ''female'') (fresh_conn [])))))) =
       [\<lparr>dem_DemographicID = 1, dem_AgeBracket = None, dem_Gender = Some ''female''\<rparr>,
        \<lparr>dem_DemographicID = 2, dem_AgeBracket = None, dem_Gender = Some ''female''\<rparr>]"
  by (simp add: goc_defs run_simps stmt_defs sample_defs cong: weak_congs)

subsection \<open>Runs on a store that raises nothing\<close>












subsection \<open>The steps of a successful \<open>process_row\<close>\<close>



subsection \<open>Fact replacement\<close>














subsection \<open>The committed store and the transaction\<close>

lemma execute_committed: "committed (snd (execute stmt cur)) = committed cur"
  by (simp add: execute_def split: option.splits prod.splits)

lemma and_then_committed:
  assumes "\<And>c. committed (snd (m c)) = committed c"
    and "\<And>a c. committed (snd (f a c)) = committed c"
  shows "committed (snd (and_then m f cur)) = committed cur"
proof (cases "m cur")
  case (Pair r c')
  with assms(1) [of cur] have "committed c' = committed cur" by simp
  with Pair assms(2) show ?thesis
    by (cases r) (simp_all add: and_then_apply)
qed

lemma return_committed: "committed (snd (return a cur)) = committed cur"
  by (simp add: return_apply)

lemma raise_committed: "committed (snd (raise e cur)) = committed cur"
  by (simp add: raise_apply)

lemmas committed_simps = and_then_committed execute_committed return_committed raise_committed

lemma get_or_create_date_committed:
  "committed (snd (get_or_create_date fd cur)) = committed cur"
  unfolding get_or_create_date_def
  by (auto split: sum.splits option.splits full_date.splits intro!: committed_simps)

lemma get_or_create_client_committed:
  "committed (snd (get_or_create_client account_fbid name cur)) = committed cur"
  unfolding get_or_create_client_def
  by (auto split: option.splits intro!: committed_simps)

lemma get_or_create_campaign_committed:
  "committed (snd (get_or_create_campaign client_id campaign_fbid name objective cur))
     = committed cur"
  unfolding get_or_create_campaign_def
  by (auto split: option.splits intro!: committed_simps)

lemma get_or_create_adset_committed:
  "committed (snd (get_or_create_adset campaign_id adset_fbid name cur)) = committed cur"
  unfolding get_or_create_adset_def
  by (auto split: option.splits intro!: committed_simps)

lemma get_or_create_ad_committed:
  "committed (snd (get_or_create_ad adset_id ad_fbid name body thumbnail_url permanent_link cur))
     = committed cur"
  unfolding get_or_create_ad_def
  by (auto split: option.splits intro!: committed_simps)

lemma get_or_create_demographic_committed:
  "committed (snd (get_or_create_demographic age_bracket gender cur)) = committed cur"
  unfolding get_or_create_demographic_def
  by (auto split: option.splits intro!: committed_simps)

lemma get_or_create_placement_committed:
  "committed (snd (get_or_create_placement platform device position cur)) = committed cur"
  unfolding get_or_create_placement_def
  by (auto split: option.splits intro!: committed_simps)

lemma process_row_committed: "committed (snd (process_row row cur)) = committed cur"
  unfolding process_row_def
  by (intro and_then_committed execute_committed get_or_create_date_committed
      get_or_create_client_committed get_or_create_campaign_committed
      get_or_create_adset_committed get_or_create_ad_committed
      get_or_create_demographic_committed get_or_create_placement_committed)

lemma commit_Inl: "commit cur = (Inl e, cur') \<Longrightarrow> committed cur' = committed cur"
  by (auto simp: commit_def split: option.splits)

lemma failed_record_committed:
  assumes "and_then (process_row row) (\<lambda>_. commit) cur = (Inl e, cur1)"
  shows "committed cur1 = committed cur"
proof -
  from assms consider "process_row row cur = (Inl e, cur1)"
    | u c where "process_row row cur = (Inr u, c)" and "commit c = (Inl e, cur1)"
    by (auto simp: and_then_Inl_iff)
  then show ?thesis
  proof cases
    case 1
    with process_row_committed [of row cur] show ?thesis by simp
  next
    case 2
    with process_row_committed [of row cur] commit_Inl show ?thesis by fastforce
  qed
qed

text \<open>
  Claim C2. Let a record start on a connection with nothing pending (the transaction's
  tables are the committed ones), and let its processing fail, at any statement of
  \<open>process_row\<close> or at the commit. Then the committed store at the moment of the failure is
  the one before the record, and it is what \<open>main\<close> leaves behind. When the failure is a
  \<open>pyodbc.Error\<close>, the handler rolls back and the loop goes on with a transaction whose
  tables are again those before the record: neither the deleted fact row is missing nor any
  dimension row of the failed record present.
\<close>

theorem record_atomicity:
  assumes clean: "working cur = committed cur"
    and fails: "and_then (process_row row) (\<lambda>_. commit) cur = (Inl e, cur1)"
  shows "committed cur1 = committed cur
    \<and> fst (snd (main [row] cur)) = committed cur
    \<and> (\<forall>msg. e = PyodbcError msg \<longrightarrow>
          import_loop idx total_rows [row] cur
            = (None, rollback cur1, [Processing idx total_rows, ErrorRow idx msg])
          \<and> working (rollback cur1) = working cur
          \<and> committed (rollback cur1) = committed cur)"
proof -
  have kept: "committed cur1 = committed cur"
    using fails by (rule failed_record_committed)
  have handled: "import_loop idx total_rows [row] cur
            = (None, rollback cur1, [Processing idx total_rows, ErrorRow idx msg])
          \<and> working (rollback cur1) = working cur
          \<and> committed (rollback cur1) = committed cur"
    if "e = PyodbcError msg" for msg idx total_rows
    using that fails kept clean by (simp add: rollback_def)
  have "fst (snd (main [row] cur)) = committed cur"
  proof (cases e)
    case (PyodbcError msg)
    with handled [of msg 1 "length [row]"] show ?thesis
      by (simp add: main_def del: import_loop.simps)
  next
    case ValueError
    with fails kept show ?thesis
      by (simp add: main_def)
  qed
  with kept handled show ?thesis by blast
qed

text \<open>
  The record names a new account and the grain of the stored fact row; the store fails at
  the tenth statement, the \<open>INSERT\<close> into \<open>fact_Metrics\<close>. At that moment the transaction
  holds a new client row and no fact row; after the handler both tables are as before.
\<close>

theorem record_atomicity_witness:
  "working (loaded_conn fact_insert_fails) = loaded_tables
   \<and> committed (loaded_conn fact_insert_fails) = loaded_tables
   \<and> and_then (process_row ((sample_row march_7 150)\<lparr>AccountFBID := 101\<rparr>)) (\<lambda>_. commit)
        (loaded_conn fact_insert_fails) =
       (Inl (PyodbcError ''insert failed''),
        (loaded_conn [])\<lparr>working := loaded_tables
           \<lparr>dim_Clients := dim_Clients loaded_tables @
              [\<lparr>cli_ClientID = 2, cli_AccountFBID = 101, cli_ClientName = Some ''acme''\<rparr>],
            fact_Metrics := []\<rparr>,
          idents := second_identities\<lparr>next_ClientID := 3\<rparr>\<rparr>)
   \<and> fst (snd (main [(sample_row march_7 150)\<lparr>AccountFBID := 101\<rparr>]
                (loaded_conn fact_insert_fails))) = loaded_tables
   \<and> import_loop 1 1 [(sample_row march_7 150)\<lparr>AccountFBID := 101\<rparr>]
        (loaded_conn fact_insert_fails) =
       (None, (loaded_conn [])\<lparr>idents := second_identities\<lparr>next_ClientID := 3\<rparr>\<rparr>,
        [Processing 1 1, ErrorRow 1 ''insert failed''])"
proof -
  let ?cur = "loaded_conn fact_insert_fails"
  let ?row = "(sample_row march_7 150)\<lparr>AccountFBID := 101\<rparr>"
  let ?cur1 = "(loaded_conn [])\<lparr>working := loaded_tables
           \<lparr>dim_Clients := dim_Clients loaded_tables @
              [\<lparr>cli_ClientID = 2, cli_AccountFBID = 101, cli_ClientName = Some ''acme''\<rparr>],
            fact_Metrics := []\<rparr>,
          idents := second_identities\<lparr>next_ClientID := 3\<rparr>\<rparr>"
  have clean: "working ?cur = committed ?cur"
    by (simp add: loaded_conn_def)
  have fails: "and_then (process_row ?row) (\<lambda>_. commit) ?cur
                 = (Inl (PyodbcError ''insert failed''), ?cur1)"
    by (simp add: process_row_def goc_defs run_simps stmt_defs sample_defs cong: weak_congs)
  have same: "rollback ?cur1 = (loaded_conn [])\<lparr>idents := second_identities\<lparr>next_ClientID := 3\<rparr>\<rparr>"
    by (simp add: rollback_def loaded_conn_def)
  from record_atomicity [OF clean fails, of 1 1] fails same show ?thesis
    by (simp add: loaded_conn_def)
qed

subsection \<open>Which failure a computation raises\<close>




















lemma process_row_NaT:
  "FullDate row = NaT \<Longrightarrow> and_then (process_row row) f cur = (Inl ValueError, cur)"
  by (simp add: process_row_def get_or_create_date_def date_key_NaT and_then_apply raise_apply)

subsection \<open>Failure isolation in the import loop\<close>



text \<open>
  Claim C3 at a batch of three records whose second has an empty date cell: the first record
  is committed, the second raises \<open>ValueError\<close>, which the handler does not catch, and the
  run ends there with that exception. The third record is never started (no progress line,
  and the stored spend stays 100) and no completion line is printed.
\<close>

theorem missing_date_aborts_run:
  "main [sample_row march_7 100, sample_row NaT 150, sample_row march_7 170] (fresh_conn [])
     = (Some ValueError, loaded_tables, [Connecting, Starting, Processing 1 3, Processing 2 3])"
  by (simp add: main_def process_row_def goc_defs run_simps stmt_defs sample_defs
      cong: weak_congs)

subsection \<open>What the handler receives\<close>




subsection \<open>What the run reports\<close>






subsection \<open>Hierarchy integrity: the store\<close>











subsection \<open>Hierarchy integrity: the steps of a record\<close>














subsection \<open>Hierarchy integrity: failed records and the batch\<close>





















subsection \<open>Resolving a natural key without null fields twice\<close>

text \<open>
  Two resolutions of the same natural key one after the other, both returning: the second
  returns the key of the first and changes neither a table nor a counter, whatever
  attributes and parent key it is given; the number of rows with the natural key goes from
  \<open>n\<close> before the first to \<open>max 1 n\<close>. For the composite keys this needs every field of
  the key to be non-null.
\<close>

lemma sql_eq_refl: "x \<noteq> None \<Longrightarrow> sql_eq x x"
  by (auto simp: sql_eq_def)

lemma find_append_None: "find P xs = None \<Longrightarrow> find P (xs @ ys) = find P ys"
  by (induction xs) (auto split: if_splits)

lemma get_or_create_client_twice:
  assumes first: "get_or_create_client account_fbid name cur = (Inr k, cur')"
    and second: "get_or_create_client account_fbid name' cur' = (Inr k', cur'')"
  shows "k' = k \<and> working cur'' = working cur' \<and> idents cur'' = idents cur'
    \<and> length (filter (\<lambda>r. cli_AccountFBID r = account_fbid) (dim_Clients (working cur'')))
        = max 1 (length (filter (\<lambda>r. cli_AccountFBID r = account_fbid) (dim_Clients (working cur))))"
proof -
  let ?P = "\<lambda>r. cli_AccountFBID r = account_fbid"
  have found: "\<exists>r. find ?P (dim_Clients (working cur')) = Some r \<and> cli_ClientID r = k"
  proof (cases "find ?P (dim_Clients (working cur))")
    case None
    with get_or_create_client_result [OF first] show ?thesis
      by (auto simp: find_append_None sql_eq_refl)
  next
    case (Some r)
    with get_or_create_client_result [OF first] show ?thesis
      by simp
  qed
  have count: "length (filter ?P (dim_Clients (working cur')))
        = max 1 (length (filter ?P (dim_Clients (working cur))))"
  proof (cases "find ?P (dim_Clients (working cur))")
    case None
    then have "filter ?P (dim_Clients (working cur)) = []"
      by (simp add: find_None_ball filter_Nil_ball)
    with get_or_create_client_result [OF first] None show ?thesis
      by (auto simp: sql_eq_refl)
  next
    case (Some r)
    then have ex: "\<exists>x\<in>set (dim_Clients (working cur)). ?P x"
      by (auto dest: find_Some_mem)
    from get_or_create_client_result [OF first] Some count_max_one [OF ex] show ?thesis
      by simp
  qed
  from found obtain r where "find ?P (dim_Clients (working cur')) = Some r" and "cli_ClientID r = k"
    by blast
  with get_or_create_client_result [OF second] count show ?thesis
    by simp
qed

lemma get_or_create_campaign_twice:
  assumes first: "get_or_create_campaign client_id campaign_fbid name objective cur = (Inr k, cur')"
    and second: "get_or_create_campaign client_id' campaign_fbid name' objective' cur' = (Inr k', cur'')"
  shows "k' = k \<and> working cur'' = working cur' \<and> idents cur'' = idents cur'
    \<and> length (filter (\<lambda>r. cmp_CampaignFBID r = campaign_fbid) (dim_Campaigns (working cur'')))
        = max 1 (length (filter (\<lambda>r. cmp_CampaignFBID r = campaign_fbid) (dim_Campaigns (working cur))))"
proof -
  let ?P = "\<lambda>r. cmp_CampaignFBID r = campaign_fbid"
  have found: "\<exists>r. find ?P (dim_Campaigns (working cur')) = Some r \<and> cmp_CampaignID r = k"
  proof (cases "find ?P (dim_Campaigns (working cur))")
    case None
    with get_or_create_campaign_result [OF first] show ?thesis
      by (auto simp: find_append_None sql_eq_refl)
  next
    case (Some r)
    with get_or_create_campaign_result [OF first] show ?thesis
      by simp
  qed
  have count: "length (filter ?P (dim_Campaigns (working cur')))
        = max 1 (length (filter ?P (dim_Campaigns (working cur))))"
  proof (cases "find ?P (dim_Campaigns (working cur))")
    case None
    then have "filter ?P (dim_Campaigns (working cur)) = []"
      by (simp add: find_None_ball filter_Nil_ball)
    with get_or_create_campaign_result [OF first] None show ?thesis
      by (auto simp: sql_eq_refl)
  next
    case (Some r)
    then have ex: "\<exists>x\<in>set (dim_Campaigns (working cur)). ?P x"
      by (auto dest: find_Some_mem)
    from get_or_create_campaign_result [OF first] Some count_max_one [OF ex] show ?thesis
      by simp
  qed
  from found obtain r where "find ?P (dim_Campaigns (working cur')) = Some r" and "cmp_CampaignID r = k"
    by blast
  with get_or_create_campaign_result [OF second] count show ?thesis
    by simp
qed

lemma get_or_create_adset_twice:
  assumes first: "get_or_create_adset campaign_id adset_fbid name cur = (Inr k, cur')"
    and second: "get_or_create_adset campaign_id' adset_fbid name' cur' = (Inr k', cur'')"
  shows "k' = k \<and> working cur'' = working cur' \<and> idents cur'' = idents cur'
    \<and> length (filter (\<lambda>r. ads_AdSetFBID r = adset_fbid) (dim_AdSets (working cur'')))
        = max 1 (length (filter (\<lambda>r. ads_AdSetFBID r = adset_fbid) (dim_AdSets (working cur))))"
proof -
  let ?P = "\<lambda>r. ads_AdSetFBID r = adset_fbid"
  have found: "\<exists>r. find ?P (dim_AdSets (working cur')) = Some r \<and> ads_AdSetID r = k"
  proof (cases "find ?P (dim_AdSets (working cur))")
    case None
    with get_or_create_adset_result [OF first] show ?thesis
      by (auto simp: find_append_None sql_eq_refl)
  next
    case (Some r)
    with get_or_create_adset_result [OF first] show ?thesis
      by simp
  qed
  have count: "length (filter ?P (dim_AdSets (working cur')))
        = max 1 (length (filter ?P (dim_AdSets (working cur))))"
  proof (cases "find ?P (dim_AdSets (working cur))")
    case None
    then have "filter ?P (dim_AdSets (working cur)) = []"
      by (simp add: find_None_ball filter_Nil_ball)
    with get_or_create_adset_result [OF first] None show ?thesis
      by (auto simp: sql_eq_refl)
  next
    case (Some r)
    then have ex: "\<exists>x\<in>set (dim_AdSets (working cur)). ?P x"
      by (auto dest: find_Some_mem)
    from get_or_create_adset_result [OF first] Some count_max_one [OF ex] show ?thesis
      by simp
  qed
  from found obtain r where "find ?P (dim_AdSets (working cur')) = Some r" and "ads_AdSetID r = k"
    by blast
  with get_or_create_adset_result [OF second] count show ?thesis
    by simp
qed

lemma get_or_create_ad_twice:
  assumes first: "get_or_create_ad adset_id ad_fbid name body thumbnail_url permanent_link cur = (Inr k, cur')"
    and second: "get_or_create_ad adset_id' ad_fbid name' body' thumbnail_url' permanent_link' cur' = (Inr k', cur'')"
  shows "k' = k \<and> working cur'' = working cur' \<and> idents cur'' = idents cur'
    \<and> length (filter (\<lambda>r. ad_AdFBID r = ad_fbid) (dim_Ads (working cur'')))
        = max 1 (length (filter (\<lambda>r. ad_AdFBID r = ad_fbid) (dim_Ads (working cur))))"
proof -
  let ?P = "\<lambda>r. ad_AdFBID r = ad_fbid"
  have found: "\<exists>r. find ?P (dim_Ads (working cur')) = Some r \<and> ad_AdID r = k"
  proof (cases "find ?P (dim_Ads (working cur))")
    case None
    with get_or_create_ad_result [OF first] show ?thesis
      by (auto simp: find_append_None sql_eq_refl)
  next
    case (Some r)
    with get_or_create_ad_result [OF first] show ?thesis
      by simp
  qed
  have count: "length (filter ?P (dim_Ads (working cur')))
        = max 1 (length (filter ?P (dim_Ads (working cur))))"
  proof (cases "find ?P (dim_Ads (working cur))")
    case None
    then have "filter ?P (dim_Ads (working cur)) = []"
      by (simp add: find_None_ball filter_Nil_ball)
    with get_or_create_ad_result [OF first] None show ?thesis
      by (auto simp: sql_eq_refl)
  next
    case (Some r)
    then have ex: "\<exists>x\<in>set (dim_Ads (working cur)). ?P x"
      by (auto dest: find_Some_mem)
    from get_or_create_ad_result [OF first] Some count_max_one [OF ex] show ?thesis
      by simp
  qed
  from found obtain r where "find ?P (dim_Ads (working cur')) = Some r" and "ad_AdID r = k"
    by blast
  with get_or_create_ad_result [OF second] count show ?thesis
    by simp
qed

lemma get_or_create_demographic_twice:
  assumes first: "get_or_create_demographic age_bracket gender cur = (Inr k, cur')"
    and second: "get_or_create_demographic age_bracket gender cur' = (Inr k', cur'')"
    and nonnull: "age_bracket \<noteq> None" "gender \<noteq> None"
  shows "k' = k \<and> working cur'' = working cur' \<and> idents cur'' = idents cur'
    \<and> length (filter (\<lambda>r. sql_eq (dem_AgeBracket r) age_bracket \<and> sql_eq (dem_Gender r) gender) (dim_Demographics (working cur'')))
        = max 1 (length (filter (\<lambda>r. sql_eq (dem_AgeBracket r) age_bracket \<and> sql_eq (dem_Gender r) gender) (dim_Demographics (working cur))))"
proof -
  let ?P = "\<lambda>r. sql_eq (dem_AgeBracket r) age_bracket \<and> sql_eq (dem_Gender r) gender"
  have found: "\<exists>r. find ?P (dim_Demographics (working cur')) = Some r \<and> dem_DemographicID r = k"
  proof (cases "find ?P (dim_Demographics (working cur))")
    case None
    with get_or_create_demographic_result [OF first] nonnull show ?thesis
      by (auto simp: find_append_None sql_eq_refl)
  next
    case (Some r)
    with get_or_create_demographic_result [OF first] show ?thesis
      by simp
  qed
  have count: "length (filter ?P (dim_Demographics (working cur')))
        = max 1 (length (filter ?P (dim_Demographics (working cur))))"
  proof (cases "find ?P (dim_Demographics (working cur))")
    case None
    then have "filter ?P (dim_Demographics (working cur)) = []"
      by (simp add: find_None_ball filter_Nil_ball)
    with get_or_create_demographic_result [OF first] None nonnull show ?thesis
      by (auto simp: sql_eq_refl)
  next
    case (Some r)
    then have ex: "\<exists>x\<in>set (dim_Demographics (working cur)). ?P x"
      by (auto dest: find_Some_mem)
    from get_or_create_demographic_result [OF first] Some count_max_one [OF ex] show ?thesis
      by simp
  qed
  from found obtain r where "find ?P (dim_Demographics (working cur')) = Some r" and "dem_DemographicID r = k"
    by blast
  with get_or_create_demographic_result [OF second] count show ?thesis
    by simp
qed

lemma get_or_create_placement_twice:
  assumes first: "get_or_create_placement platform device position cur = (Inr k, cur')"
    and second: "get_or_create_placement platform device position cur' = (Inr k', cur'')"
    and nonnull: "platform \<noteq> None" "device \<noteq> None" "position \<noteq> None"
  shows "k' = k \<and> working cur'' = working cur' \<and> idents cur'' = idents cur'
    \<and> length (filter (\<lambda>r. sql_eq (plc_Platform r) platform \<and> sql_eq (plc_Device r) device
                    \<and> sql_eq (plc_Position r) position) (dim_Placements (working cur'')))
        = max 1 (length (filter (\<lambda>r. sql_eq (plc_Platform r) platform \<and> sql_eq (plc_Device r) device
                    \<and> sql_eq (plc_Position r) position) (dim_Placements (working cur))))"
proof -
  let ?P = "\<lambda>r. sql_eq (plc_Platform r) platform \<and> sql_eq (plc_Device r) device
                    \<and> sql_eq (plc_Position r) position"
  have found: "\<exists>r. find ?P (dim_Placements (working cur')) = Some r \<and> plc_PlacementID r = k"
  proof (cases "find ?P (dim_Placements (working cur))")
    case None
    with get_or_create_placement_result [OF first] nonnull show ?thesis
      by (auto simp: find_append_None sql_eq_refl)
  next
    case (Some r)
    with get_or_create_placement_result [OF first] show ?thesis
      by simp
  qed
  have count: "length (filter ?P (dim_Placements (working cur')))
        = max 1 (length (filter ?P (dim_Placements (working cur))))"
  proof (cases "find ?P (dim_Placements (working cur))")
    case None
    then have "filter ?P (dim_Placements (working cur)) = []"
      by (simp add: find_None_ball filter_Nil_ball)
    with get_or_create_placement_result [OF first] None nonnull show ?thesis
      by (auto simp: sql_eq_refl)
  next
    case (Some r)
    then have ex: "\<exists>x\<in>set (dim_Placements (working cur)). ?P x"
      by (auto dest: find_Some_mem)
    from get_or_create_placement_result [OF first] Some count_max_one [OF ex] show ?thesis
      by simp
  qed
  from found obtain r where "find ?P (dim_Placements (working cur')) = Some r" and "plc_PlacementID r = k"
    by blast
  with get_or_create_placement_result [OF second] count show ?thesis
    by simp
qed

end
